theory Spec2Isabelle
  imports Main "HOL-Library.Sublist"
begin

section \<open>Python strings\<close>

text \<open>
  A Python \<open>str\<close> is modelled as a \<open>string\<close>; a \<open>char\<close> stands for a code point
  below 256, which covers the ASCII text the external tools read and write.
\<close>

definition LF :: char where
  "LF = CHR 0x0A"

definition CR :: char where
  "CR = CHR 0x0D"

definition TAB :: char where
  "TAB = CHR 0x09"

text \<open>
  \<open>str.isspace\<close> on one character: the code points below 256 that Python counts as
  whitespace are 9..13, 28..32, 133 and 160.
\<close>

definition isspace :: "char \<Rightarrow> bool" where
  "isspace c = (of_char c \<in> {9::nat, 10, 11, 12, 13, 28, 29, 30, 31, 32, 133, 160})"

text \<open>\<open>s.strip()\<close> with no argument: whitespace removed at both ends.\<close>

definition strip :: "string \<Rightarrow> string" where
  "strip s = rev (dropWhile isspace (rev (dropWhile isspace s)))"

text \<open>\<open>s.startswith(p)\<close> and \<open>s.endswith(p)\<close>.\<close>

definition startswith :: "string \<Rightarrow> string \<Rightarrow> bool" where
  "startswith s p = prefix p s"

definition endswith :: "string \<Rightarrow> string \<Rightarrow> bool" where
  "endswith s p = suffix p s"

text \<open>
  \<open>s.split(sep)\<close> for a one-character separator: every occurrence of the separator
  cuts, so the empty string gives one empty field.
\<close>

fun split_str :: "char \<Rightarrow> string \<Rightarrow> string list" where
  "split_str sep [] = [[]]"
| "split_str sep (c # cs) =
     (if c = sep then [] # split_str sep cs
      else (case split_str sep cs of
              [] \<Rightarrow> [[c]]
            | f # fs \<Rightarrow> (c # f) # fs))"

text \<open>
  \<open>s.replace(old, new)\<close>: the occurrences of \<open>old\<close> are found from the left and do not
  overlap. For an empty \<open>old\<close> Python puts \<open>new\<close> before every character and at the end.
\<close>

function str_replace :: "string \<Rightarrow> string \<Rightarrow> string \<Rightarrow> string" where
  "str_replace old new s =
     (if old = [] then new @ concat (map (\<lambda>c. c # new) s)
      else if s = [] then []
      else if prefix old s then new @ str_replace old new (drop (length old) s)
      else hd s # str_replace old new (tl s))"
  by pat_completeness auto
termination
  by (relation "measure (\<lambda>(old, new, s). length s)") auto

declare str_replace.simps [simp del]

section \<open>Text files\<close>

text \<open>
  A file opened with \<open>open(path, "r")\<close> is read with universal newlines: \<open>\r\n\<close> and a
  lone \<open>\r\<close> both arrive as \<open>\n\<close>.
\<close>

fun universal_newlines :: "string \<Rightarrow> string" where
  "universal_newlines [] = []"
| "universal_newlines [c] = (if c = CR then [LF] else [c])"
| "universal_newlines (c # d # cs) =
     (if c = CR then
        (if d = LF then LF # universal_newlines cs
         else LF # universal_newlines (d # cs))
      else c # universal_newlines (d # cs))"

text \<open>
  \<open>for line in infile\<close>: the text is cut after every \<open>\n\<close>, each line keeps its
  \<open>\n\<close>, and a last line without one is still a line.
\<close>

fun iter_lines :: "string \<Rightarrow> string list" where
  "iter_lines [] = []"
| "iter_lines (c # cs) =
     (if c = LF then [c] # iter_lines cs
      else (case iter_lines cs of
              [] \<Rightarrow> [[c]]
            | l # ls \<Rightarrow> (c # l) # ls))"

section \<open>The chain-record filter of \<open>run_paf2liftover\<close>\<close>

text \<open>
  The test of lines 27 to 29 of \<open>2_paf_liftover.py\<close>:
  \<open>not line.startswith("#") and line.strip()\<close>, then \<open>len(line.split('\t')) == 13\<close>.
\<close>

definition keep_line :: "string \<Rightarrow> bool" where
  "keep_line line =
     (\<not> startswith line ''#'' \<and> strip line \<noteq> [] \<and> length (split_str TAB line) = 13)"

text \<open>The lines handed to \<open>outfile.write\<close>, in order, for the bytes of the temporary file.\<close>

definition written_lines :: "string \<Rightarrow> string list" where
  "written_lines raw = filter keep_line (iter_lines (universal_newlines raw))"

text \<open>The content of the final chain file (on POSIX a written \<open>\n\<close> stays one byte).\<close>

definition filter_chain :: "string \<Rightarrow> string" where
  "filter_chain raw = concat (written_lines raw)"

text \<open>
  Lines as file iteration yields them: none is empty, a \<open>\n\<close> stands only at the end of
  a line, and every line but the last ends with one.
\<close>

definition wf_lines :: "string list \<Rightarrow> bool" where
  "wf_lines ls =
     ((\<forall>l \<in> set ls. l \<noteq> [] \<and> LF \<notin> set (butlast l)) \<and>
      (\<forall>l \<in> set (butlast ls). last l = LF))"

text \<open>Sample inputs: a line of twelve tabs, and a temporary file of five lines.\<close>

definition tabs_only_line :: string where
  "tabs_only_line = replicate 12 TAB @ [LF]"

definition record13 :: string where
  "record13 = ''chain'' @ concat (replicate 12 (TAB # ''7'')) @ [LF]"

definition record12 :: string where
  "record12 = ''chain'' @ concat (replicate 11 (TAB # ''7'')) @ [LF]"

definition sample_tmp :: string where
  "sample_tmp = ''#c'' @ [CR, LF] @ record13 @ [LF] @ record12 @ tabs_only_line"

section \<open>Paths\<close>

text \<open>\<open>os.path.join(a, b)\<close> of \<open>posixpath\<close>, for two components.\<close>

definition path_join :: "string \<Rightarrow> string \<Rightarrow> string" where
  "path_join a b =
     (if startswith b ''/'' then b
      else if a = [] \<or> endswith a ''/'' then a @ b
      else a @ ''/'' @ b)"

text \<open>\<open>s.rfind(c)\<close> for one character: the last index of \<open>c\<close>, or -1.\<close>

definition rfind :: "string \<Rightarrow> char \<Rightarrow> int" where
  "rfind s c =
     (if c \<in> set s then int (length s) - 1 - int (length (takeWhile (\<lambda>x. x \<noteq> c) (rev s)))
      else - 1)"

text \<open>
  \<open>os.path.splitext(p)[0]\<close> of \<open>posixpath\<close>: the path up to its last dot, when that dot
  stands after the last slash and some character between the two is not a dot;
  otherwise the whole path.
\<close>

definition splitext_root :: "string \<Rightarrow> string" where
  "splitext_root p =
     (let sepIndex = rfind p (CHR ''/'');
          dotIndex = rfind p (CHR ''.'')
      in if dotIndex > sepIndex
            \<and> list_ex (\<lambda>c. c \<noteq> CHR ''.'')
                 (take (nat (dotIndex - (sepIndex + 1))) (drop (nat (sepIndex + 1)) p))
         then take (nat dotIndex) p
         else p)"

text \<open>\<open>s.rstrip('/')\<close>.\<close>

definition rstrip_slash :: "string \<Rightarrow> string" where
  "rstrip_slash s = rev (dropWhile (\<lambda>c. c = CHR ''/'') (rev s))"

text \<open>
  \<open>os.path.split(p)\<close> of \<open>posixpath\<close>: the path is cut after its last slash; the head
  loses its trailing slashes unless it consists of slashes only.
\<close>

definition path_split :: "string \<Rightarrow> string \<times> string" where
  "path_split p =
     (let i = nat (rfind p (CHR ''/'') + 1);
          head = take i p;
          tail = drop i p
      in (if head \<noteq> [] \<and> list_ex (\<lambda>c. c \<noteq> CHR ''/'') head then rstrip_slash head else head,
          tail))"

text \<open>
  The first lines of \<open>os.makedirs\<close>: \<open>head, tail = path.split(name)\<close>, and when the tail
  is empty \<open>head, tail = path.split(head)\<close>.
\<close>

definition makedirs_split :: "string \<Rightarrow> string \<times> string" where
  "makedirs_split name =
     (case path_split name of
        (head, tail) \<Rightarrow> if tail = [] then path_split head else (head, tail))"

section \<open>The world the programs run in\<close>

type_synonym path = string

datatype exn =
    FileNotFoundError
  | CalledProcessError "string list" int string string
  | KeyError "string list"
  | FileExistsError
  | NotADirectoryError
  | IsADirectoryError
  | OSError
  | EmptyDataError
  | ParserError

text \<open>One constructor for each \<open>print\<close> call of the two programs, with the values it shows.\<close>

datatype message =
    Msg_running_command "string list"
  | Msg_generated_paf path
  | Msg_error_minimap2 exn
  | Msg_minimap2_not_found
  | Msg_input_dir_missing path
  | Msg_processing_fasta path
  | Msg_outputting_paf path
  | Msg_aligning string
  | Msg_rule
  | Msg_running_paf2liftover path
  | Msg_filtered_chain path
  | Msg_error_paf2liftover exn
  | Msg_stdout string
  | Msg_stderr string
  | Msg_paf2liftover_not_found
  | Msg_running_liftover path
  | Msg_lifted_over path
  | Msg_unmapped_saved path
  | Msg_no_unmapped
  | Msg_error_liftover exn
  | Msg_liftover_not_found
  | Msg_created_bed path
  | Msg_tsv_not_found path
  | Msg_column_missing exn
  | Msg_chain_not_generated string

text \<open>
  The state: the regular files with their bytes, the directories with the names
  \<open>os.listdir\<close> returns for them, the size \<open>os.stat\<close> reports for a directory, the
  messages printed so far and the commands handed to \<open>subprocess.run\<close> so far.
  A directory is known by the path string the program uses for it. What the Python code
  itself makes before it lists a directory (\<open>os.makedirs\<close>, \<open>to_csv\<close>) enters the
  listing of its parent directory; the external programs run after the listing is taken.
\<close>

record world =
  files :: "path \<rightharpoonup> string"
  dirs :: "path \<rightharpoonup> string list"
  dir_size :: "path \<Rightarrow> nat"
  printed :: "message list"
  invocations :: "string list list"

text \<open>
  An external program, started with its command line on the files of the moment: either
  no such binary is on the path, or it runs, leaves the files changed and exits with a
  return code, its standard output and its standard error.
\<close>

datatype run_result =
    NotFound
  | Exited int string string "path \<rightharpoonup> string"

type_synonym programs = "string list \<Rightarrow> (path \<rightharpoonup> string) \<Rightarrow> run_result"

definition py_print :: "message \<Rightarrow> world \<Rightarrow> world" where
  "py_print m w = w\<lparr>printed := printed w @ [m]\<rparr>"

text \<open>
  \<open>subprocess.run(command, check=True)\<close>: \<open>FileNotFoundError\<close> when the binary is
  missing, \<open>CalledProcessError\<close> when the return code is not zero.
\<close>

definition subprocess_run :: "programs \<Rightarrow> string list \<Rightarrow> world \<Rightarrow> (exn + unit) \<times> world" where
  "subprocess_run ext command w =
     (case ext command (files w) of
        NotFound \<Rightarrow> (Inl FileNotFoundError, w\<lparr>invocations := invocations w @ [command]\<rparr>)
      | Exited rc out err fs \<Rightarrow>
          (let w' = w\<lparr>files := fs, invocations := invocations w @ [command]\<rparr>
           in if rc \<noteq> 0 then (Inl (CalledProcessError command rc out err), w')
              else (Inr (), w')))"

definition os_path_exists :: "world \<Rightarrow> path \<Rightarrow> bool" where
  "os_path_exists w p = (files w p \<noteq> None \<or> dirs w p \<noteq> None)"

definition os_path_isdir :: "world \<Rightarrow> path \<Rightarrow> bool" where
  "os_path_isdir w p = (dirs w p \<noteq> None)"

definition os_stat_size :: "world \<Rightarrow> path \<Rightarrow> exn + nat" where
  "os_stat_size w p =
     (case files w p of
        Some content \<Rightarrow> Inr (length content)
      | None \<Rightarrow> (if dirs w p \<noteq> None then Inr (dir_size w p) else Inl FileNotFoundError))"

definition os_listdir :: "world \<Rightarrow> path \<Rightarrow> exn + string list" where
  "os_listdir w p =
     (case dirs w p of
        Some names \<Rightarrow> Inr names
      | None \<Rightarrow> (if files w p \<noteq> None then Inl NotADirectoryError else Inl FileNotFoundError))"

text \<open>
  A new name in a directory: the name enters the listing of the directory \<open>head\<close>, or
  of the current directory \<open>.\<close> when the head is empty.
\<close>

definition add_entry :: "string \<Rightarrow> string \<Rightarrow> world \<Rightarrow> world" where
  "add_entry head tail w =
     (let parent = (if head = [] then ''.'' else head)
      in case dirs w parent of
           None \<Rightarrow> w
         | Some names \<Rightarrow>
             (if tail \<in> set names then w
              else w\<lparr>dirs := (dirs w)(parent \<mapsto> names @ [tail])\<rparr>))"

text \<open>
  \<open>os.mkdir(name)\<close>: \<open>FileExistsError\<close> when the path exists, \<open>FileNotFoundError\<close> or
  \<open>NotADirectoryError\<close> when its parent is missing or a regular file; otherwise the
  directory is made, empty, and enters the listing of its parent.
\<close>

definition os_mkdir :: "path \<Rightarrow> world \<Rightarrow> (exn + unit) \<times> world" where
  "os_mkdir name w =
     (case makedirs_split name of
        (head, tail) \<Rightarrow>
          if name = [] then (Inl FileNotFoundError, w)
          else if os_path_exists w name \<or> tail = [] then (Inl FileExistsError, w)
          else if head \<noteq> [] \<and> dirs w head = None then
            (Inl (if files w head \<noteq> None then NotADirectoryError else FileNotFoundError), w)
          else (Inr (), add_entry head tail (w\<lparr>dirs := (dirs w)(name \<mapsto> [])\<rparr>)))"

text \<open>
  The last lines of \<open>os.makedirs(name, exist_ok=True)\<close>: \<open>mkdir(name)\<close>, whose error is
  dropped when the path is a directory.
\<close>

definition mkdir_exist_ok :: "path \<Rightarrow> world \<Rightarrow> (exn + unit) \<times> world" where
  "mkdir_exist_ok name w =
     (case os_mkdir name w of
        (Inr u, w') \<Rightarrow> (Inr (), w')
      | (Inl e, w') \<Rightarrow> (if os_path_isdir w' name then (Inr (), w') else (Inl e, w')))"

lemma length_rstrip_slash: "length (rstrip_slash s) \<le> length s"
  unfolding rstrip_slash_def using length_dropWhile_le [of "\<lambda>c. c = CHR ''/''" "rev s"] by simp

lemma path_split_shorter:
  "path_split p = (head, tail) \<Longrightarrow> length head \<le> length p \<and> (tail \<noteq> [] \<longrightarrow> length head < length p)"
  using length_rstrip_slash [of "take (nat (rfind p (CHR ''/'') + 1)) p"]
  by (auto simp: path_split_def Let_def split: if_splits)

lemma makedirs_split_shorter:
  "makedirs_split name = (head, tail) \<Longrightarrow> tail \<noteq> [] \<Longrightarrow> length head < length name"
proof -
  assume a: "makedirs_split name = (head, tail)" and t: "tail \<noteq> []"
  obtain h1 t1 where s1: "path_split name = (h1, t1)" by (cases "path_split name")
  show ?thesis
  proof (cases "t1 = []")
    case True
    then have "path_split h1 = (head, tail)" using a s1 by (simp add: makedirs_split_def)
    then have "length head < length h1" using t path_split_shorter by blast
    moreover have "length h1 \<le> length name" using s1 path_split_shorter by blast
    ultimately show ?thesis by simp
  next
    case False
    then have "(h1, t1) = (head, tail)" using a s1 by (simp add: makedirs_split_def)
    then show ?thesis using s1 t path_split_shorter by blast
  qed
qed

text \<open>
  \<open>os.makedirs(name, exist_ok=True)\<close>: the missing parent directories are made first
  (a \<open>FileExistsError\<close> from that is passed over), then the directory itself.
\<close>

function os_makedirs :: "path \<Rightarrow> world \<Rightarrow> (exn + unit) \<times> world" where
  "os_makedirs name w =
     (case makedirs_split name of
        (head, tail) \<Rightarrow>
          if head \<noteq> [] \<and> tail \<noteq> [] \<and> \<not> os_path_exists w head then
            (case os_makedirs head w of
               (Inl e, w1) \<Rightarrow>
                 (if e = FileExistsError then
                    (if tail = ''.'' then (Inr (), w1) else mkdir_exist_ok name w1)
                  else (Inl e, w1))
             | (Inr u, w1) \<Rightarrow>
                 (if tail = ''.'' then (Inr (), w1) else mkdir_exist_ok name w1))
          else mkdir_exist_ok name w)"
  by pat_completeness auto
termination
  by (relation "measure (\<lambda>(name, w). length name)")
    (auto dest: makedirs_split_shorter [OF sym])

declare os_makedirs.simps [simp del]

definition os_remove :: "path \<Rightarrow> world \<Rightarrow> (exn + unit) \<times> world" where
  "os_remove p w =
     (case files w p of
        Some content \<Rightarrow> (Inr (), w\<lparr>files := (files w)(p := None)\<rparr>)
      | None \<Rightarrow> (if dirs w p \<noteq> None then (Inl IsADirectoryError, w)
                 else (Inl FileNotFoundError, w)))"

text \<open>Opening a file for reading and reading all of it.\<close>

definition read_file :: "path \<Rightarrow> world \<Rightarrow> exn + string" where
  "read_file p w =
     (case files w p of
        Some content \<Rightarrow> Inr content
      | None \<Rightarrow> (if dirs w p \<noteq> None then Inl IsADirectoryError else Inl FileNotFoundError))"

text \<open>
  \<open>open(chain_file, "w")\<close>, which creates or empties the file. It is reached only
  after the temporary file next to it was opened, so the directory of the path exists.
\<close>

definition open_write :: "path \<Rightarrow> world \<Rightarrow> (exn + unit) \<times> world" where
  "open_write p w =
     (if dirs w p \<noteq> None then (Inl IsADirectoryError, w)
      else (Inr (), w\<lparr>files := (files w)(p \<mapsto> [])\<rparr>))"

text \<open>Writing text to a file that is open for writing: the text is appended.\<close>

definition write_text :: "path \<Rightarrow> string \<Rightarrow> world \<Rightarrow> world" where
  "write_text p s w =
     w\<lparr>files := (files w)(p \<mapsto> (case files w p of None \<Rightarrow> s | Some content \<Rightarrow> content @ s))\<rparr>"

text \<open>
  The parent test of \<open>to_csv\<close>: \<open>Path(path).parent.is_dir()\<close>; a path without a slash
  has the current directory as its parent.
\<close>

definition parent_is_dir :: "world \<Rightarrow> path \<Rightarrow> bool" where
  "parent_is_dir w p = (case path_split p of (head, tail) \<Rightarrow> head = [] \<or> os_path_isdir w head)"

text \<open>
  Writing a file as \<open>to_csv\<close> does: \<open>OSError\<close> when the parent of the path is not a
  directory, \<open>IsADirectoryError\<close> when the path is one; otherwise the file holds the
  text and enters the listing of its parent.
\<close>

definition to_csv_write :: "path \<Rightarrow> string \<Rightarrow> world \<Rightarrow> (exn + unit) \<times> world" where
  "to_csv_write p content w =
     (if \<not> parent_is_dir w p then (Inl OSError, w)
      else if dirs w p \<noteq> None then (Inl IsADirectoryError, w)
      else (Inr (), add_entry (fst (path_split p)) (snd (path_split p))
                      (w\<lparr>files := (files w)(p \<mapsto> content)\<rparr>)))"

section \<open>Program 1: \<open>1_run_batch_alignment.py\<close>\<close>

definition minimap2_command :: "path \<Rightarrow> path \<Rightarrow> path \<Rightarrow> string list" where
  "minimap2_command target_fasta query_fasta output_paf =
     [''minimap2'', ''-ax'', ''asm5'', ''-secondary=no'', ''-K'', ''4G'',
      target_fasta, query_fasta, ''-o'', output_paf]"

text \<open>The \<open>try\<close> block of \<open>run_minimap2\<close>.\<close>

definition run_minimap2_try ::
  "programs \<Rightarrow> path \<Rightarrow> path \<Rightarrow> path \<Rightarrow> world \<Rightarrow> (exn + unit) \<times> world" where
  "run_minimap2_try ext target_fasta query_fasta output_paf w =
     (let command = minimap2_command target_fasta query_fasta output_paf;
          w1 = py_print (Msg_running_command command) w
      in case subprocess_run ext command w1 of
           (Inl e, w2) \<Rightarrow> (Inl e, w2)
         | (Inr u, w2) \<Rightarrow> (Inr (), py_print (Msg_generated_paf output_paf) w2))"

text \<open>\<open>run_minimap2\<close>: the \<open>try\<close> block under its two \<open>except\<close> clauses.\<close>

definition run_minimap2 ::
  "programs \<Rightarrow> path \<Rightarrow> path \<Rightarrow> path \<Rightarrow> world \<Rightarrow> (exn + unit) \<times> world" where
  "run_minimap2 ext target_fasta query_fasta output_paf w =
     (case run_minimap2_try ext target_fasta query_fasta output_paf w of
        (Inr u, w') \<Rightarrow> (Inr (), w')
      | (Inl e, w') \<Rightarrow>
          (case e of
             CalledProcessError c rc out err \<Rightarrow> (Inr (), py_print (Msg_error_minimap2 e) w')
           | FileNotFoundError \<Rightarrow> (Inr (), py_print Msg_minimap2_not_found w')
           | _ \<Rightarrow> (Inl e, w')))"

definition has_sequence_suffix :: "string \<Rightarrow> bool" where
  "has_sequence_suffix filename =
     (endswith filename ''.fasta'' \<or> endswith filename ''.fa'' \<or> endswith filename ''.fna'')"

text \<open>The command the loop of \<open>process_directories\<close> builds for one file name.\<close>

definition alignment_command :: "path \<Rightarrow> path \<Rightarrow> path \<Rightarrow> string \<Rightarrow> string list" where
  "alignment_command target_fasta input_dir output_dir filename =
     (let query_fasta_path = path_join input_dir filename;
          base_name = splitext_root filename;
          output_paf_path = path_join output_dir (base_name @ ''_vs_hg38.paf'')
      in minimap2_command target_fasta query_fasta_path output_paf_path)"

text \<open>The \<open>for\<close> loop of \<open>process_directories\<close> over the listing.\<close>

fun align_files ::
  "programs \<Rightarrow> path \<Rightarrow> path \<Rightarrow> path \<Rightarrow> string list \<Rightarrow> world \<Rightarrow> (exn + unit) \<times> world" where
  "align_files ext target_fasta input_dir output_dir [] w = (Inr (), w)"
| "align_files ext target_fasta input_dir output_dir (filename # rest) w =
     (if has_sequence_suffix filename then
        (let query_fasta_path = path_join input_dir filename;
             base_name = splitext_root filename;
             output_paf_path = path_join output_dir (base_name @ ''_vs_hg38.paf'');
             w1 = py_print (Msg_aligning filename) w
         in case run_minimap2 ext target_fasta query_fasta_path output_paf_path w1 of
              (Inl e, w2) \<Rightarrow> (Inl e, w2)
            | (Inr u, w2) \<Rightarrow>
                align_files ext target_fasta input_dir output_dir rest (py_print Msg_rule w2))
      else align_files ext target_fasta input_dir output_dir rest w)"

definition process_directories ::
  "programs \<Rightarrow> path \<Rightarrow> path \<Rightarrow> path \<Rightarrow> world \<Rightarrow> (exn + unit) \<times> world" where
  "process_directories ext target_fasta input_dir output_dir w =
     (if \<not> os_path_isdir w input_dir then
        (Inr (), py_print (Msg_input_dir_missing input_dir) w)
      else
        (case os_makedirs output_dir w of
           (Inl e, w1) \<Rightarrow> (Inl e, w1)
         | (Inr u, w1) \<Rightarrow>
             (let w2 = py_print (Msg_processing_fasta input_dir) w1;
                  w3 = py_print (Msg_outputting_paf output_dir) w2
              in case os_listdir w3 input_dir of
                   Inl e \<Rightarrow> (Inl e, w3)
                 | Inr names \<Rightarrow> align_files ext target_fasta input_dir output_dir names w3)))"

text \<open>\<open>main\<close> of program 1, from its three parsed arguments.\<close>

definition main_alignment ::
  "programs \<Rightarrow> path \<Rightarrow> path \<Rightarrow> path \<Rightarrow> world \<Rightarrow> (exn + unit) \<times> world" where
  "main_alignment ext target_fasta input_dir output_dir w =
     process_directories ext target_fasta input_dir output_dir w"

section \<open>Program 2: \<open>2_paf_liftover.py\<close>\<close>

subsection \<open>\<open>run_paf2liftover\<close>\<close>

definition paf2liftover_command :: "path \<Rightarrow> path \<Rightarrow> string list" where
  "paf2liftover_command paf_file chain_file =
     [''paf2liftover.py'', ''--no-chains'', ''--best-only'', paf_file, chain_file @ ''.tmp'']"

text \<open>
  The \<open>try\<close> block: the converter, then the temporary file opened for reading and the
  chain file for writing, the kept lines written, the temporary file removed.
\<close>

definition run_paf2liftover_try ::
  "programs \<Rightarrow> path \<Rightarrow> path \<Rightarrow> world \<Rightarrow> (exn + unit) \<times> world" where
  "run_paf2liftover_try ext paf_file chain_file w =
     (let command = paf2liftover_command paf_file chain_file;
          w1 = py_print (Msg_running_paf2liftover paf_file) w
      in case subprocess_run ext command w1 of
           (Inl e, w2) \<Rightarrow> (Inl e, w2)
         | (Inr u, w2) \<Rightarrow>
             (case read_file (chain_file @ ''.tmp'') w2 of
                Inl e \<Rightarrow> (Inl e, w2)
              | Inr raw \<Rightarrow>
                  (case open_write chain_file w2 of
                     (Inl e, w3) \<Rightarrow> (Inl e, w3)
                   | (Inr u, w3) \<Rightarrow>
                       (let w4 = foldl (\<lambda>v line. write_text chain_file line v) w3
                                   (written_lines raw)
                        in case os_remove (chain_file @ ''.tmp'') w4 of
                             (Inl e, w5) \<Rightarrow> (Inl e, w5)
                           | (Inr u, w5) \<Rightarrow>
                               (Inr (), py_print (Msg_filtered_chain chain_file) w5)))))"

definition run_paf2liftover ::
  "programs \<Rightarrow> path \<Rightarrow> path \<Rightarrow> world \<Rightarrow> (exn + unit) \<times> world" where
  "run_paf2liftover ext paf_file chain_file w =
     (case run_paf2liftover_try ext paf_file chain_file w of
        (Inr u, w') \<Rightarrow> (Inr (), w')
      | (Inl e, w') \<Rightarrow>
          (case e of
             CalledProcessError c rc out err \<Rightarrow>
               (Inr (), py_print (Msg_stderr err)
                          (py_print (Msg_stdout out)
                             (py_print (Msg_error_paf2liftover e) w')))
           | FileNotFoundError \<Rightarrow> (Inr (), py_print Msg_paf2liftover_not_found w')
           | _ \<Rightarrow> (Inl e, w')))"

subsection \<open>\<open>run_liftover\<close>\<close>

definition liftover_command :: "path \<Rightarrow> path \<Rightarrow> path \<Rightarrow> path \<Rightarrow> string list" where
  "liftover_command bed_file chain_file output_bed unmapped_bed =
     [''liftOver'', bed_file, chain_file, output_bed, unmapped_bed]"

definition run_liftover_try ::
  "programs \<Rightarrow> path \<Rightarrow> path \<Rightarrow> path \<Rightarrow> path \<Rightarrow> world \<Rightarrow> (exn + unit) \<times> world" where
  "run_liftover_try ext bed_file chain_file output_bed unmapped_bed w =
     (let command = liftover_command bed_file chain_file output_bed unmapped_bed;
          w1 = py_print (Msg_running_liftover chain_file) w
      in case subprocess_run ext command w1 of
           (Inl e, w2) \<Rightarrow> (Inl e, w2)
         | (Inr u, w2) \<Rightarrow>
             (let w3 = py_print (Msg_lifted_over output_bed) w2
              in if os_path_exists w3 unmapped_bed then
                   (case os_stat_size w3 unmapped_bed of
                      Inl e \<Rightarrow> (Inl e, w3)
                    | Inr n \<Rightarrow>
                        (if n > 0 then (Inr (), py_print (Msg_unmapped_saved unmapped_bed) w3)
                         else (Inr (), py_print Msg_no_unmapped w3)))
                 else (Inr (), py_print Msg_no_unmapped w3)))"

definition run_liftover ::
  "programs \<Rightarrow> path \<Rightarrow> path \<Rightarrow> path \<Rightarrow> path \<Rightarrow> world \<Rightarrow> (exn + unit) \<times> world" where
  "run_liftover ext bed_file chain_file output_bed unmapped_bed w =
     (case run_liftover_try ext bed_file chain_file output_bed unmapped_bed w of
        (Inr u, w') \<Rightarrow> (Inr (), w')
      | (Inl e, w') \<Rightarrow>
          (case e of
             CalledProcessError c rc out err \<Rightarrow> (Inr (), py_print (Msg_error_liftover e) w')
           | FileNotFoundError \<Rightarrow> (Inr (), py_print Msg_liftover_not_found w')
           | _ \<Rightarrow> (Inl e, w')))"

subsection \<open>\<open>create_hg38_bed\<close>\<close>

text \<open>
  The loci table after \<open>pd.read_csv\<close>: its columns in order, each a name with its
  values, all of one length and with distinct names. A column of whole numbers holds
  integers; a column of numbers with a blank or a fraction in it holds floats, the
  blank being \<open>NaN\<close>; any other column holds strings, a blank again being \<open>NaN\<close>. A
  float is kept as the text Python prints for it, so the whole number 1000 read into a
  float column is \<open>FloatCell ''1000.0''\<close>.
\<close>

datatype cell = IntCell int | FloatCell string | NaN | StrCell string

type_synonym dataframe = "(string \<times> cell list) list"

text \<open>\<open>str(n)\<close> for an integer: its decimal digits.\<close>

definition digit_char :: "nat \<Rightarrow> char" where
  "digit_char d = ''0123456789'' ! d"

function str_nat :: "nat \<Rightarrow> string" where
  "str_nat n = (if n < 10 then [digit_char n] else str_nat (n div 10) @ [digit_char (n mod 10)])"
  by pat_completeness auto
termination
  by (relation "measure (\<lambda>n. n)") auto

declare str_nat.simps [simp del]

definition str_int :: "int \<Rightarrow> string" where
  "str_int i = (if i < 0 then ''-'' @ str_nat (nat (- i)) else str_nat (nat i))"

text \<open>\<open>series.astype(str)\<close> on one value.\<close>

definition astype_str :: "cell \<Rightarrow> string" where
  "astype_str v =
     (case v of
        IntCell i \<Rightarrow> str_int i
      | FloatCell r \<Rightarrow> r
      | NaN \<Rightarrow> ''nan''
      | StrCell s \<Rightarrow> s)"

text \<open>
  \<open>df[names]\<close>: the named columns in the order asked for, or \<open>KeyError\<close> with the names
  that are not columns.
\<close>

definition select_columns :: "dataframe \<Rightarrow> string list \<Rightarrow> exn + dataframe" where
  "select_columns df names =
     (let missing = filter (\<lambda>n. map_of df n = None) names
      in if missing \<noteq> [] then Inl (KeyError missing)
         else Inr (map (\<lambda>n. (n, case map_of df n of Some vs \<Rightarrow> vs | None \<Rightarrow> [])) names))"

text \<open>\<open>df[name] = f(df[name])\<close> for a column the frame has.\<close>

definition map_column :: "string \<Rightarrow> (cell \<Rightarrow> cell) \<Rightarrow> dataframe \<Rightarrow> dataframe" where
  "map_column name f df = map (\<lambda>(n, vs). if n = name then (n, map f vs) else (n, vs)) df"

text \<open>
  One field as \<open>to_csv\<close> writes it with separator tab: a missing value is written as
  nothing, a float as Python prints it, and a string that holds the
  separator, a double quote or a line end is put in double quotes, its double quotes
  doubled (the minimal quoting of the \<open>csv\<close> module, which is the default of
  \<open>to_csv\<close>).
\<close>

definition csv_field :: "cell \<Rightarrow> string" where
  "csv_field v =
     (case v of
        IntCell i \<Rightarrow> str_int i
      | FloatCell r \<Rightarrow> r
      | NaN \<Rightarrow> []
      | StrCell s \<Rightarrow>
          (if list_ex (\<lambda>c. c = TAB \<or> c = CHR 0x22 \<or> c = LF \<or> c = CR) s
           then [CHR 0x22] @ concat (map (\<lambda>c. if c = CHR 0x22 then [c, c] else [c]) s)
                @ [CHR 0x22]
           else s))"

text \<open>\<open>sep.join(fields)\<close>.\<close>

fun str_join :: "string \<Rightarrow> string list \<Rightarrow> string" where
  "str_join sep [] = []"
| "str_join sep [f] = f"
| "str_join sep (f # g # fs) = f @ sep @ str_join sep (g # fs)"

text \<open>
  \<open>df.to_csv(path, sep='\t', header=False, index=False)\<close>: one line for each row, no
  line for the column names.
\<close>

definition to_csv_lines :: "dataframe \<Rightarrow> string list" where
  "to_csv_lines df =
     map (\<lambda>row. str_join [TAB] (map csv_field row) @ [LF]) (transpose (map snd df))"

definition create_hg38_bed_try ::
  "(string \<Rightarrow> exn + dataframe) \<Rightarrow> path \<Rightarrow> path \<Rightarrow> world \<Rightarrow> (exn + path option) \<times> world" where
  "create_hg38_bed_try read_csv imprinted_loci_tsv output_bed w =
     (case read_file imprinted_loci_tsv w of
        Inl e \<Rightarrow> (Inl e, w)
      | Inr raw \<Rightarrow>
          (case read_csv raw of
             Inl e \<Rightarrow> (Inl e, w)
           | Inr df \<Rightarrow>
               (case select_columns df [''Chromosome'', ''Start'', ''End''] of
                  Inl e \<Rightarrow> (Inl e, w)
                | Inr bed_df \<Rightarrow>
                    (let bed_df' = map_column ''Chromosome''
                                     (\<lambda>v. StrCell (''chr'' @ astype_str v)) bed_df
                     in case to_csv_write output_bed (concat (to_csv_lines bed_df')) w of
                          (Inl e, w1) \<Rightarrow> (Inl e, w1)
                        | (Inr u, w1) \<Rightarrow>
                            (Inr (Some output_bed),
                             py_print (Msg_created_bed output_bed) w1)))))"

definition create_hg38_bed ::
  "(string \<Rightarrow> exn + dataframe) \<Rightarrow> path \<Rightarrow> path \<Rightarrow> world \<Rightarrow> (exn + path option) \<times> world" where
  "create_hg38_bed read_csv imprinted_loci_tsv output_bed w =
     (case create_hg38_bed_try read_csv imprinted_loci_tsv output_bed w of
        (Inr r, w') \<Rightarrow> (Inr r, w')
      | (Inl e, w') \<Rightarrow>
          (case e of
             FileNotFoundError \<Rightarrow> (Inr None, py_print (Msg_tsv_not_found imprinted_loci_tsv) w')
           | KeyError ns \<Rightarrow> (Inr None, py_print (Msg_column_missing e) w')
           | _ \<Rightarrow> (Inl e, w')))"

subsection \<open>\<open>process_paf_directory\<close> and \<open>main\<close>\<close>

text \<open>\<open>filename.replace(".paf", "")\<close>.\<close>

definition assembly_name_of :: "string \<Rightarrow> string" where
  "assembly_name_of filename = str_replace ''.paf'' '''' filename"

text \<open>The body of the loop of \<open>process_paf_directory\<close> for a name that ends in \<open>.paf\<close>.\<close>

definition process_paf_file ::
  "programs \<Rightarrow> path \<Rightarrow> path \<Rightarrow> path \<Rightarrow> path \<Rightarrow> string \<Rightarrow> world \<Rightarrow> (exn + unit) \<times> world" where
  "process_paf_file ext paf_dir output_bed_dir unmapped_bed_dir hg38_bed_file filename w =
     (let assembly_name = assembly_name_of filename;
          paf_file = path_join paf_dir filename;
          chain_file = path_join output_bed_dir (assembly_name @ ''_to_hg38.chain'');
          lifted_over_bed = path_join output_bed_dir (assembly_name @ ''_imprinted_loci.bed'');
          unmapped_bed = path_join unmapped_bed_dir (assembly_name @ ''_unmapped.bed'')
      in case run_paf2liftover ext paf_file chain_file w of
           (Inl e, w1) \<Rightarrow> (Inl e, w1)
         | (Inr u, w1) \<Rightarrow>
             (if os_path_exists w1 chain_file then
                run_liftover ext hg38_bed_file chain_file lifted_over_bed unmapped_bed w1
              else (Inr (), py_print (Msg_chain_not_generated assembly_name) w1)))"

fun process_paf_files ::
  "programs \<Rightarrow> path \<Rightarrow> path \<Rightarrow> path \<Rightarrow> path \<Rightarrow> string list \<Rightarrow> world
     \<Rightarrow> (exn + unit) \<times> world" where
  "process_paf_files ext paf_dir output_bed_dir unmapped_bed_dir hg38_bed_file [] w =
     (Inr (), w)"
| "process_paf_files ext paf_dir output_bed_dir unmapped_bed_dir hg38_bed_file
     (filename # rest) w =
     (if endswith filename ''.paf'' then
        (case process_paf_file ext paf_dir output_bed_dir unmapped_bed_dir hg38_bed_file
                filename w of
           (Inl e, w1) \<Rightarrow> (Inl e, w1)
         | (Inr u, w1) \<Rightarrow>
             process_paf_files ext paf_dir output_bed_dir unmapped_bed_dir hg38_bed_file
               rest w1)
      else process_paf_files ext paf_dir output_bed_dir unmapped_bed_dir hg38_bed_file
             rest w)"

definition process_paf_directory ::
  "programs \<Rightarrow> path \<Rightarrow> path \<Rightarrow> path \<Rightarrow> path \<Rightarrow> world \<Rightarrow> (exn + unit) \<times> world" where
  "process_paf_directory ext paf_dir output_bed_dir unmapped_bed_dir hg38_bed_file w =
     (case os_listdir w paf_dir of
        Inl e \<Rightarrow> (Inl e, w)
      | Inr names \<Rightarrow>
          process_paf_files ext paf_dir output_bed_dir unmapped_bed_dir hg38_bed_file
            names w)"

text \<open>
  \<open>main\<close> of program 2, from its four parsed arguments; \<open>cwd\<close> is what \<open>os.getcwd()\<close>
  returns.
\<close>

definition main_liftover ::
  "programs \<Rightarrow> (string \<Rightarrow> exn + dataframe) \<Rightarrow> path \<Rightarrow> path \<Rightarrow> path \<Rightarrow> path \<Rightarrow> path
     \<Rightarrow> world \<Rightarrow> (exn + unit) \<times> world" where
  "main_liftover ext read_csv cwd paf_dir output_bed_dir unmapped_bed_dir imprinted_loci_tsv w =
     (case os_makedirs output_bed_dir w of
        (Inl e, w1) \<Rightarrow> (Inl e, w1)
      | (Inr u, w1) \<Rightarrow>
     (case os_makedirs unmapped_bed_dir w1 of
        (Inl e, w2) \<Rightarrow> (Inl e, w2)
      | (Inr u, w2) \<Rightarrow>
     (case create_hg38_bed read_csv imprinted_loci_tsv
             (path_join cwd ''hg38_imprinted_loci.bed'') w2 of
        (Inl e, w3) \<Rightarrow> (Inl e, w3)
      | (Inr None, w3) \<Rightarrow> (Inr (), w3)
      | (Inr (Some hg38_bed_file), w3) \<Rightarrow>
          (if hg38_bed_file = [] then (Inr (), w3)
           else
             (case process_paf_directory ext paf_dir output_bed_dir unmapped_bed_dir
                     hg38_bed_file w3 of
                (Inl e, w4) \<Rightarrow> (Inl e, w4)
              | (Inr u, w4) \<Rightarrow>
                  (if os_path_exists w4 hg38_bed_file then os_remove hg38_bed_file w4
                   else (Inr (), w4)))))))"

section \<open>Sample inputs\<close>

text \<open>
  A directory \<open>in\<close> with two sequence files and one other file, and external programs
  that have no aligner when the query is \<open>in/a.fa\<close> and succeed otherwise.
\<close>

definition sample_listing :: "string list" where
  "sample_listing = [''a.fa'', ''notes.txt'', ''b.fasta'']"

definition sample_world :: world where
  "sample_world =
     \<lparr>files = Map.empty, dirs = [''in'' \<mapsto> sample_listing], dir_size = (\<lambda>p. 0),
      printed = [], invocations = []\<rparr>"

text \<open>The same directory, with a regular file at the output path \<open>out\<close>.\<close>

definition blocked_world :: world where
  "blocked_world = sample_world\<lparr>files := [''out'' \<mapsto> ''not a directory'']\<rparr>"

definition no_aligner_for_a :: programs where
  "no_aligner_for_a command fs =
     (if ''in/a.fa'' \<in> set command then NotFound else Exited 0 [] [] fs)"

text \<open>
  A directory of alignment files, and three behaviours of the external programs: both
  tools work (the converter writes \<open>sample_tmp\<close>, the liftover maps every interval),
  the converter fails with return code 1, and no tool is installed.
\<close>

definition paf_world :: world where
  "paf_world =
     \<lparr>files = [''pafs/x.paf'' \<mapsto> ''alignment''],
      dirs = [''pafs'' \<mapsto> [''x.paf'', ''readme.txt'']], dir_size = (\<lambda>p. 0),
      printed = [], invocations = []\<rparr>"

definition working_tools :: programs where
  "working_tools command fs =
     (if take 1 command = [''paf2liftover.py'']
      then Exited 0 [] [] (fs(last command \<mapsto> sample_tmp))
      else if take 1 command = [''liftOver'']
      then Exited 0 [] [] (fs(last (butlast command) \<mapsto> ''lifted'', last command \<mapsto> []))
      else NotFound)"

definition broken_converter :: programs where
  "broken_converter command fs =
     (if take 1 command = [''paf2liftover.py''] then Exited 1 ''partial'' ''bad record'' fs
      else NotFound)"

definition no_tools :: programs where
  "no_tools command fs = NotFound"

text \<open>
  Three loci table files: one row; the same row and a second row with a blank start,
  which makes \<open>Start\<close> a float column; and an empty file. The reader knows these
  tables only, and raises on the empty file as \<open>pd.read_csv\<close> does.
\<close>

definition sample_tsv :: string where
  "sample_tsv = ''Chromosome'' @ [TAB] @ ''Start'' @ [TAB] @ ''End'' @ [LF]
                @ ''1'' @ [TAB] @ ''1000'' @ [TAB] @ ''2000'' @ [LF]"

definition sample_loci :: dataframe where
  "sample_loci = [(''Chromosome'', [IntCell 1]), (''Start'', [IntCell 1000]),
                  (''End'', [IntCell 2000])]"

definition blank_tsv :: string where
  "blank_tsv = ''Chromosome'' @ [TAB] @ ''Start'' @ [TAB] @ ''End'' @ [LF]
               @ ''1'' @ [TAB] @ ''1000'' @ [TAB] @ ''2000'' @ [LF]
               @ ''2'' @ [TAB] @ [TAB] @ ''3000'' @ [LF]"

definition blank_loci :: dataframe where
  "blank_loci = [(''Chromosome'', [IntCell 1, IntCell 2]),
                 (''Start'', [FloatCell ''1000.0'', NaN]),
                 (''End'', [IntCell 2000, IntCell 3000])]"

definition sample_read_csv :: "string \<Rightarrow> exn + dataframe" where
  "sample_read_csv raw =
     (if raw = sample_tsv then Inr sample_loci
      else if raw = blank_tsv then Inr blank_loci
      else if raw = [] then Inl EmptyDataError
      else Inl ParserError)"

definition loci_world :: world where
  "loci_world =
     \<lparr>files = [''loci.tsv'' \<mapsto> sample_tsv, ''blank.tsv'' \<mapsto> blank_tsv, ''empty.tsv'' \<mapsto> []],
      dirs = [''/work'' \<mapsto> []], dir_size = (\<lambda>p. 0),
      printed = [], invocations = []\<rparr>"

section \<open>Properties of the string and file operations\<close>

lemma universal_newlines_no_CR: "CR \<notin> set (universal_newlines s)"
  by (induction s rule: universal_newlines.induct) (auto simp: CR_def LF_def)

lemma universal_newlines_id: "CR \<notin> set s \<Longrightarrow> universal_newlines s = s"
  by (induction s rule: universal_newlines.induct) auto

lemma concat_iter_lines: "concat (iter_lines s) = s"
  by (induction s) (auto split: list.splits)

lemma iter_lines_Nil [simp]: "iter_lines s = [] \<longleftrightarrow> s = []"
  by (cases s) (auto split: list.splits)

lemma iter_lines_line:
  "LF \<notin> set a \<Longrightarrow> iter_lines (a @ LF # r) = (a @ [LF]) # iter_lines r"
  by (induction a) auto

lemma iter_lines_last: "LF \<notin> set a \<Longrightarrow> a \<noteq> [] \<Longrightarrow> iter_lines a = [a]"
proof (induction a)
  case Nil
  then show ?case by simp
next
  case (Cons c cs)
  show ?case
  proof (cases "cs = []")
    case True
    then show ?thesis using Cons.prems by simp
  next
    case False
    then have "iter_lines cs = [cs]" using Cons by simp
    then show ?thesis using Cons.prems by auto
  qed
qed

lemma wf_iter_lines: "wf_lines (iter_lines s)"
  unfolding wf_lines_def
  by (induction s) (auto split: list.splits if_splits)

lemma butlast_filter: "set (butlast (filter P xs)) \<subseteq> set (butlast xs)"
  by (induction xs) auto

lemma wf_lines_filter: "wf_lines ls \<Longrightarrow> wf_lines (filter P ls)"
  unfolding wf_lines_def using butlast_filter [of P ls] by auto

text \<open>Reading back what was written line by line gives the same lines.\<close>

lemma iter_lines_concat: "wf_lines ls \<Longrightarrow> iter_lines (concat ls) = ls"
proof (induction ls)
  case Nil
  then show ?case by simp
next
  case (Cons l ls)
  have wf: "wf_lines ls"
    using Cons.prems by (auto simp: wf_lines_def split: if_splits)
  have l: "l \<noteq> []" "LF \<notin> set (butlast l)"
    using Cons.prems by (auto simp: wf_lines_def)
  show ?case
  proof (cases ls)
    case Nil
    show ?thesis
    proof (cases "last l = LF")
      case True
      then have "l = butlast l @ [LF]"
        using l(1) by (metis append_butlast_last_id)
      then have "iter_lines l = [l]"
        using iter_lines_line [OF l(2), of "[]"] by simp
      then show ?thesis using Nil by simp
    next
      case False
      then have "LF \<notin> set l"
        using l by (metis append_butlast_last_id Un_iff set_append list.set(1) list.set(2)
            empty_iff insert_iff)
      then show ?thesis using Nil iter_lines_last l(1) by simp
    qed
  next
    case (Cons m ms)
    then have "last l = LF"
      using Cons.prems by (auto simp: wf_lines_def)
    then have "l = butlast l @ [LF]"
      using l(1) by (metis append_butlast_last_id)
    then have "iter_lines (l @ concat ls) = l # iter_lines (concat ls)"
      using iter_lines_line [OF l(2), of "concat ls"]
      by (metis append.assoc append_Cons append_Nil)
    then show ?thesis using Cons.IH wf by simp
  qed
qed

lemma written_lines_reread: "written_lines (concat (written_lines raw)) = written_lines raw"
proof -
  let ?ls = "written_lines raw"
  have wf: "wf_lines ?ls"
    unfolding written_lines_def by (rule wf_lines_filter [OF wf_iter_lines])
  have "CR \<notin> set (universal_newlines raw)"
    by (rule universal_newlines_no_CR)
  then have "CR \<notin> set (concat (iter_lines (universal_newlines raw)))"
    by (simp add: concat_iter_lines)
  then have "CR \<notin> set (concat ?ls)"
    unfolding written_lines_def by auto
  then have "universal_newlines (concat ?ls) = concat ?ls"
    by (rule universal_newlines_id)
  then have "written_lines (concat ?ls) = filter keep_line ?ls"
    unfolding written_lines_def [of "concat ?ls"] using iter_lines_concat [OF wf] by simp
  also have "\<dots> = ?ls"
    unfolding written_lines_def by simp
  finally show ?thesis .
qed

section \<open>The chain-record filter\<close>

text \<open>
  C1, as stated, fails: the line of twelve tabs and a newline splits on tab into exactly
  13 fields and has no comment prefix, yet it is whitespace only, so the filter drops it.
\<close>

theorem tabs_only_line_dropped:
  "length (split_str TAB tabs_only_line) = 13
   \<and> \<not> startswith tabs_only_line ''#''
   \<and> iter_lines (universal_newlines tabs_only_line) = [tabs_only_line]
   \<and> written_lines tabs_only_line = []
   \<and> filter_chain tabs_only_line = []"
  by (simp add: tabs_only_line_def filter_chain_def written_lines_def keep_line_def
      startswith_def strip_def isspace_def TAB_def LF_def CR_def eval_nat_numeral)

text \<open>
  C1, amended: of the lines read from the temporary file, one with 12 tab-separated
  fields, one starting with \<open>#\<close> and one that is whitespace only are never written to the
  final chain file; one with exactly 13 tab-separated fields, no comment prefix and a
  character that is not whitespace is always written.
\<close>

theorem chain_filter_lines:
  assumes "l \<in> set (iter_lines (universal_newlines raw))"
  shows "(length (split_str TAB l) = 12 \<or> startswith l ''#'' \<or> strip l = []
            \<longrightarrow> l \<notin> set (written_lines raw))
       \<and> (length (split_str TAB l) = 13 \<and> \<not> startswith l ''#'' \<and> strip l \<noteq> []
            \<longrightarrow> l \<in> set (written_lines raw))"
  using assms by (auto simp: written_lines_def keep_line_def)

theorem chain_filter_lines_witness:
  "record13 \<in> set (iter_lines (universal_newlines sample_tmp))
   \<and> length (split_str TAB record13) = 13 \<and> \<not> startswith record13 ''#''
   \<and> strip record13 \<noteq> []
   \<and> record13 \<in> set (written_lines sample_tmp)
   \<and> record12 \<in> set (iter_lines (universal_newlines sample_tmp))
   \<and> length (split_str TAB record12) = 12
   \<and> record12 \<notin> set (written_lines sample_tmp)"
proof -
  have h: "record13 \<in> set (iter_lines (universal_newlines sample_tmp))"
    and h': "record12 \<in> set (iter_lines (universal_newlines sample_tmp))"
    by (simp_all add: sample_tmp_def record13_def record12_def tabs_only_line_def TAB_def
        LF_def CR_def eval_nat_numeral)
  have k: "length (split_str TAB record13) = 13 \<and> \<not> startswith record13 ''#''
           \<and> strip record13 \<noteq> []"
    by (simp add: record13_def startswith_def strip_def isspace_def TAB_def LF_def
        eval_nat_numeral)
  have k': "length (split_str TAB record12) = 12"
    by (simp add: record12_def TAB_def LF_def eval_nat_numeral)
  show ?thesis
    using h h' k k' chain_filter_lines [OF h] chain_filter_lines [OF h'] by blast
qed

text \<open>
  C2: the chain-record filter is idempotent on files: filtering the final chain file
  again gives the same file.
\<close>

theorem filter_chain_idempotent: "filter_chain (filter_chain raw) = filter_chain raw"
  unfolding filter_chain_def by (simp add: written_lines_reread)

section \<open>Properties of \<open>str.replace\<close>\<close>

lemma str_replace_absent:
  "old \<noteq> [] \<Longrightarrow> \<not> sublist old s \<Longrightarrow> str_replace old new s = s"
proof (induction old new s rule: str_replace.induct)
  case (1 old new s)
  show ?case
  proof (cases s)
    case Nil
    then show ?thesis using 1 by (simp add: str_replace.simps)
  next
    case (Cons c cs)
    have np: "\<not> prefix old s" using "1.prems"(2) by (auto dest: prefix_imp_sublist)
    have "\<not> sublist old (tl s)" using "1.prems"(2) Cons by (auto simp: sublist_Cons_right)
    then have "str_replace old new (tl s) = tl s" using 1 np Cons by simp
    then show ?thesis using np Cons "1.prems"(1) by (subst str_replace.simps) simp
  qed
qed

lemma paf_not_prefix:
  "\<not> sublist ''.paf'' (c # a) \<Longrightarrow> \<not> prefix ''.paf'' (c # a @ ''.paf'' @ b)"
proof
  assume ns: "\<not> sublist ''.paf'' (c # a)" and p: "prefix ''.paf'' (c # a @ ''.paf'' @ b)"
  have "length a < 3"
  proof (rule ccontr)
    assume "\<not> length a < 3"
    then have "prefix ''.paf'' (c # a)" using p
      by (auto simp: prefix_def append_eq_append_conv2 Cons_eq_append_conv append_eq_Cons_conv)
    then show False using ns by (auto dest: prefix_imp_sublist)
  qed
  then consider "a = []" | x where "a = [x]" | x y where "a = [x, y]"
    by (cases a; cases "tl a"; cases "tl (tl a)") auto
  then show False using p by cases auto
qed

lemma str_replace_step:
  "old \<noteq> [] \<Longrightarrow> \<not> prefix old (c # s) \<Longrightarrow>
   str_replace old new (c # s) = c # str_replace old new s"
  by (subst str_replace.simps) simp

lemma str_replace_match:
  "old \<noteq> [] \<Longrightarrow> str_replace old new (old @ s) = new @ str_replace old new s"
  by (subst str_replace.simps) simp

lemma str_replace_paf_first:
  "\<not> sublist ''.paf'' a \<Longrightarrow>
   str_replace ''.paf'' new (a @ ''.paf'' @ b) = a @ new @ str_replace ''.paf'' new b"
proof (induction a)
  case Nil
  show ?case using str_replace_match [of "''.paf''" new b] by simp
next
  case (Cons c a)
  have np: "\<not> prefix ''.paf'' (c # a @ ''.paf'' @ b)" using paf_not_prefix [OF Cons.prems] .
  have "\<not> sublist ''.paf'' a" using Cons.prems by (auto simp: sublist_Cons_right)
  then have ih: "str_replace ''.paf'' new (a @ ''.paf'' @ b) = a @ new @ str_replace ''.paf'' new b"
    by (rule Cons.IH)
  have "str_replace ''.paf'' new (c # a @ ''.paf'' @ b) = c # str_replace ''.paf'' new (a @ ''.paf'' @ b)"
    by (rule str_replace_step [OF _ np]) simp
  then show ?case using ih by simp
qed

section \<open>Program 1: every sequence file is aligned once\<close>

lemma run_minimap2_result:
  "run_minimap2 ext t q out w =
     (Inr (),
      (case ext (minimap2_command t q out) (files w) of
         NotFound \<Rightarrow>
           w\<lparr>printed := printed w @ [Msg_running_command (minimap2_command t q out),
                                       Msg_minimap2_not_found],
             invocations := invocations w @ [minimap2_command t q out]\<rparr>
       | Exited rc so se fs \<Rightarrow>
           w\<lparr>files := fs,
             printed := printed w @ [Msg_running_command (minimap2_command t q out),
                if rc \<noteq> 0 then Msg_error_minimap2 (CalledProcessError (minimap2_command t q out) rc so se)
                else Msg_generated_paf out],
             invocations := invocations w @ [minimap2_command t q out]\<rparr>))"
  by (simp add: run_minimap2_def run_minimap2_try_def subprocess_run_def py_print_def Let_def
      split: run_result.splits)

lemma run_minimap2_ok: "fst (run_minimap2 ext t q out w) = Inr ()"
  by (simp add: run_minimap2_result)

lemma run_minimap2_invocations:
  "invocations (snd (run_minimap2 ext t q out w)) = invocations w @ [minimap2_command t q out]"
  by (simp add: run_minimap2_result split: run_result.splits)

lemma align_files_result:
  "fst (align_files ext t ind outd names w) = Inr ()
   \<and> invocations (snd (align_files ext t ind outd names w)) =
       invocations w @ map (alignment_command t ind outd) (filter has_sequence_suffix names)"
proof (induction names arbitrary: w)
  case Nil
  then show ?case by simp
next
  case (Cons f names)
  show ?case
  proof (cases "has_sequence_suffix f")
    case False
    then show ?thesis using Cons.IH by simp
  next
    case True
    let ?q = "path_join ind f"
    let ?o = "path_join outd (splitext_root f @ ''_vs_hg38.paf'')"
    let ?w1 = "py_print (Msg_aligning f) w"
    obtain w2 where r: "run_minimap2 ext t ?q ?o ?w1 = (Inr (), w2)"
      using run_minimap2_ok [of ext t ?q ?o ?w1] by (cases "run_minimap2 ext t ?q ?o ?w1") auto
    have inv: "invocations w2 = invocations w @ [alignment_command t ind outd f]"
      using run_minimap2_invocations [of ext t ?q ?o ?w1] r
      by (simp add: alignment_command_def py_print_def Let_def)
    have "align_files ext t ind outd (f # names) w =
            align_files ext t ind outd names (py_print Msg_rule w2)"
      using True r by (simp add: Let_def)
    moreover have "invocations (py_print Msg_rule w2) = invocations w2"
      by (simp add: py_print_def)
    ultimately show ?thesis using Cons.IH [of "py_print Msg_rule w2"] inv True by simp
  qed
qed


lemma path_join_inject:
  "\<not> startswith f ''/'' \<Longrightarrow> \<not> startswith g ''/'' \<Longrightarrow>
   path_join d f = path_join d g \<longleftrightarrow> f = g"
  by (auto simp: path_join_def)

lemma count_list_map_inj:
  "inj_on g (insert x (set xs)) \<Longrightarrow> count_list (map g xs) (g x) = count_list xs x"
  by (induction xs) (auto simp: inj_on_def)

lemma count_list_filter_distinct:
  "distinct xs \<Longrightarrow> x \<in> set xs \<Longrightarrow> count_list (filter P xs) x = (if P x then 1 else 0)"
  by (induction xs) (auto simp: count_list_0_iff)

lemma minimap2_command_query [simp]: "minimap2_command t q out ! 7 = q"
  by (simp add: minimap2_command_def eval_nat_numeral)


lemma add_entry_frame:
  "invocations (add_entry h t w) = invocations w \<and> printed (add_entry h t w) = printed w
   \<and> files (add_entry h t w) = files w"
  by (simp add: add_entry_def Let_def split: option.splits)

lemma mkdir_exist_ok_frame:
  "invocations (snd (mkdir_exist_ok name w)) = invocations w
   \<and> printed (snd (mkdir_exist_ok name w)) = printed w
   \<and> files (snd (mkdir_exist_ok name w)) = files w"
  by (auto simp: mkdir_exist_ok_def os_mkdir_def add_entry_frame split: prod.splits sum.splits if_splits)

lemma os_makedirs_frame:
  "invocations (snd (os_makedirs name w)) = invocations w
   \<and> printed (snd (os_makedirs name w)) = printed w
   \<and> files (snd (os_makedirs name w)) = files w"
proof (induction name w rule: os_makedirs.induct)
  case (1 name w)
  obtain head tail where s: "makedirs_split name = (head, tail)"
    by (cases "makedirs_split name")
  show ?case
  proof (cases "head \<noteq> [] \<and> tail \<noteq> [] \<and> \<not> os_path_exists w head")
    case False
    then show ?thesis using s mkdir_exist_ok_frame [of name w]
      by (subst (1 2 3) os_makedirs.simps) auto
  next
    case True
    obtain r w1 where rec: "os_makedirs head w = (r, w1)" by (cases "os_makedirs head w")
    have ih: "invocations w1 = invocations w \<and> printed w1 = printed w \<and> files w1 = files w"
      using "1.IH" [OF s [symmetric]] True rec by simp
    show ?thesis
      using s True rec ih mkdir_exist_ok_frame [of name w1]
      by (subst (1 2 3) os_makedirs.simps) (auto split: sum.splits)
  qed
qed

text \<open>
  C4, as stated, fails: with a regular file at the output path, \<open>os.makedirs\<close> raises
  \<open>FileExistsError\<close> before the directory is listed, the run ends with that exception,
  and the sequence file \<open>a.fa\<close> of the input directory gets no alignment command.
\<close>

theorem output_path_is_a_file:
  "dirs blocked_world ''in'' = Some sample_listing
   \<and> has_sequence_suffix ''a.fa'' \<and> ''a.fa'' \<in> set sample_listing
   \<and> fst (process_directories no_aligner_for_a ''hg38.fa'' ''in'' ''out'' blocked_world) = Inl FileExistsError
   \<and> invocations (snd (process_directories no_aligner_for_a ''hg38.fa'' ''in'' ''out'' blocked_world)) = []"
  by (simp add: process_directories_def os_path_isdir_def os_makedirs.simps makedirs_split_def
      path_split_def rfind_def rstrip_slash_def mkdir_exist_ok_def os_mkdir_def
      os_path_exists_def blocked_world_def sample_world_def sample_listing_def
      has_sequence_suffix_def endswith_def suffix_def Let_def)

text \<open>
  C4, amended: when the input directory exists and \<open>os.makedirs\<close> succeeds for the
  output directory, the commands handed to \<open>subprocess.run\<close> are, in listing order, one
  alignment command for each name that ends in \<open>.fasta\<close>, \<open>.fa\<close> or \<open>.fna\<close> in the
  listing of the input directory taken after the output directory was made, and none for
  any other name, whatever the external programs do (missing binary or any return
  code): the run returns without an exception, two behaviours of the external programs
  give the same commands, and each listed name is the query of exactly one command when
  it has such a suffix and of none otherwise.
\<close>

theorem every_sequence_file_aligned_once:
  assumes "dirs w input_dir \<noteq> None"
    and "os_makedirs output_dir w = (Inr (), w1)"
    and "dirs w1 input_dir = Some names"
  shows "fst (process_directories ext target input_dir output_dir w) = Inr ()
       \<and> invocations (snd (process_directories ext target input_dir output_dir w)) =
           invocations w @ map (alignment_command target input_dir output_dir)
                              (filter has_sequence_suffix names)
       \<and> invocations (snd (process_directories ext' target input_dir output_dir w)) =
           invocations (snd (process_directories ext target input_dir output_dir w))
       \<and> (distinct names \<and> (\<forall>f \<in> set names. \<not> startswith f ''/'') \<longrightarrow>
            (\<forall>f \<in> set names.
               count_list
                 (map (\<lambda>command. command ! 7)
                    (drop (length (invocations w))
                       (invocations (snd (process_directories ext target input_dir output_dir w)))))
                 (path_join input_dir f)
               = (if has_sequence_suffix f then 1 else 0)))"
proof -
  let ?cmd = "alignment_command target input_dir output_dir"
  let ?sel = "filter has_sequence_suffix names"
  have i1: "invocations w1 = invocations w"
    using os_makedirs_frame [of output_dir w] assms(2) by simp
  have run: "\<And>e. fst (process_directories e target input_dir output_dir w) = Inr ()
       \<and> invocations (snd (process_directories e target input_dir output_dir w)) =
           invocations w @ map ?cmd ?sel"
  proof -
    fix e
    let ?w3 = "py_print (Msg_outputting_paf output_dir) (py_print (Msg_processing_fasta input_dir) w1)"
    have ls: "os_listdir ?w3 input_dir = Inr names"
      using assms(3) by (simp add: os_listdir_def py_print_def)
    have i3: "invocations ?w3 = invocations w"
      using i1 by (simp add: py_print_def)
    have "process_directories e target input_dir output_dir w =
            align_files e target input_dir output_dir names ?w3"
      using assms(1,2) ls by (simp add: process_directories_def os_path_isdir_def Let_def)
    then show "fst (process_directories e target input_dir output_dir w) = Inr ()
       \<and> invocations (snd (process_directories e target input_dir output_dir w)) =
           invocations w @ map ?cmd ?sel"
      using align_files_result [of e target input_dir output_dir names ?w3] i3 by simp
  qed
  have count: "count_list (map (\<lambda>command. command ! 7) (map ?cmd ?sel)) (path_join input_dir f)
        = (if has_sequence_suffix f then 1 else 0)"
    if d: "distinct names" and s: "\<forall>f \<in> set names. \<not> startswith f ''/''" and f: "f \<in> set names"
    for f
  proof -
    have q: "map (\<lambda>command. command ! 7) (map ?cmd ?sel) = map (path_join input_dir) ?sel"
      by (simp add: alignment_command_def Let_def)
    have "inj_on (path_join input_dir) (insert f (set ?sel))"
      using s f by (auto simp: inj_on_def path_join_inject)
    then have "count_list (map (path_join input_dir) ?sel) (path_join input_dir f)
        = count_list ?sel f"
      by (rule count_list_map_inj)
    also have "\<dots> = (if has_sequence_suffix f then 1 else 0)"
      by (rule count_list_filter_distinct [OF d f])
    finally show ?thesis unfolding q .
  qed
  show ?thesis using run [of ext] run [of ext'] count by simp
qed

theorem every_sequence_file_aligned_once_witness:
  "dirs sample_world ''in'' \<noteq> None
   \<and> os_makedirs ''in/res.fa'' sample_world =
       (Inr (), sample_world\<lparr>dirs := [''in/res.fa'' \<mapsto> [],
                                        ''in'' \<mapsto> sample_listing @ [''res.fa'']]\<rparr>)
   \<and> distinct (sample_listing @ [''res.fa''])
   \<and> fst (process_directories no_aligner_for_a ''hg38.fa'' ''in'' ''in/res.fa'' sample_world)
       = Inr ()
   \<and> invocations (snd (process_directories no_aligner_for_a ''hg38.fa'' ''in'' ''in/res.fa''
        sample_world)) =
       [minimap2_command ''hg38.fa'' ''in/a.fa'' ''in/res.fa/a_vs_hg38.paf'',
        minimap2_command ''hg38.fa'' ''in/b.fasta'' ''in/res.fa/b_vs_hg38.paf'',
        minimap2_command ''hg38.fa'' ''in/res.fa'' ''in/res.fa/res_vs_hg38.paf'']
   \<and> count_list
         (map (\<lambda>command. command ! 7)
            (invocations (snd (process_directories no_aligner_for_a ''hg38.fa'' ''in''
               ''in/res.fa'' sample_world))))
         ''in/b.fasta'' = 1
   \<and> count_list
         (map (\<lambda>command. command ! 7)
            (invocations (snd (process_directories no_aligner_for_a ''hg38.fa'' ''in''
               ''in/res.fa'' sample_world))))
         ''in/notes.txt'' = 0"
proof -
  let ?w1 = "sample_world\<lparr>dirs := [''in/res.fa'' \<mapsto> [],
                                        ''in'' \<mapsto> sample_listing @ [''res.fa'']]\<rparr>"
  let ?run = "process_directories no_aligner_for_a ''hg38.fa'' ''in'' ''in/res.fa'' sample_world"
  have d: "dirs sample_world ''in'' \<noteq> None"
    by (simp add: sample_world_def)
  have mk: "os_makedirs ''in/res.fa'' sample_world = (Inr (), ?w1)"
    by (simp add: os_makedirs.simps makedirs_split_def path_split_def rfind_def rstrip_slash_def
        mkdir_exist_ok_def os_mkdir_def os_path_exists_def os_path_isdir_def add_entry_def
        sample_world_def sample_listing_def Let_def)
  have l: "dirs ?w1 ''in'' = Some (sample_listing @ [''res.fa''])"
    by simp
  have c: "map (alignment_command ''hg38.fa'' ''in'' ''in/res.fa'')
             (filter has_sequence_suffix (sample_listing @ [''res.fa'']))
      = [minimap2_command ''hg38.fa'' ''in/a.fa'' ''in/res.fa/a_vs_hg38.paf'',
        minimap2_command ''hg38.fa'' ''in/b.fasta'' ''in/res.fa/b_vs_hg38.paf'',
        minimap2_command ''hg38.fa'' ''in/res.fa'' ''in/res.fa/res_vs_hg38.paf'']"
    by (simp add: sample_listing_def has_sequence_suffix_def endswith_def suffix_def
        alignment_command_def path_join_def startswith_def splitext_root_def rfind_def Let_def)
  have i: "invocations sample_world = []"
    by (simp add: sample_world_def)
  have s: "distinct (sample_listing @ [''res.fa''])
      \<and> (\<forall>f \<in> set (sample_listing @ [''res.fa'']). \<not> startswith f ''/'')"
    by (simp add: sample_listing_def startswith_def)
  have m: "''b.fasta'' \<in> set (sample_listing @ [''res.fa''])"
    "''notes.txt'' \<in> set (sample_listing @ [''res.fa''])"
    "has_sequence_suffix ''b.fasta''" "\<not> has_sequence_suffix ''notes.txt''"
    "path_join ''in'' ''b.fasta'' = ''in/b.fasta''" "path_join ''in'' ''notes.txt'' = ''in/notes.txt''"
    by (simp_all add: sample_listing_def has_sequence_suffix_def endswith_def suffix_def
        path_join_def startswith_def)
  note t = every_sequence_file_aligned_once [OF d mk l, of no_aligner_for_a "''hg38.fa''"
      no_aligner_for_a]
  have t1: "fst ?run = Inr ()"
    and t2: "invocations (snd ?run) =
           invocations sample_world @ map (alignment_command ''hg38.fa'' ''in'' ''in/res.fa'')
             (filter has_sequence_suffix (sample_listing @ [''res.fa'']))"
    and t3: "\<forall>f \<in> set (sample_listing @ [''res.fa'']).
               count_list
                 (map (\<lambda>command. command ! 7)
                    (drop (length (invocations sample_world)) (invocations (snd ?run))))
                 (path_join ''in'' f)
               = (if has_sequence_suffix f then 1 else 0)"
    using t s by blast+
  have b1: "count_list (map (\<lambda>command. command ! 7) (invocations (snd ?run))) ''in/b.fasta'' = 1"
    using t3 m(1,3,5) i by fastforce
  have b2: "count_list (map (\<lambda>command. command ! 7) (invocations (snd ?run))) ''in/notes.txt'' = 0"
    using t3 m(2,4,6) i by fastforce
  show ?thesis using d mk s t1 t2 c i b1 b2 by simp
qed

section \<open>Program 2: the chain conversion and the liftover\<close>

lemma write_lines_result:
  "files w p \<noteq> None \<Longrightarrow>
   foldl (\<lambda>v line. write_text p line v) w ls =
     w\<lparr>files := (files w)(p \<mapsto> the (files w p) @ concat ls)\<rparr>"
proof (induction ls arbitrary: w)
  case Nil
  then have "(files w)(p \<mapsto> the (files w p)) = files w" by (auto simp: fun_upd_idem)
  then show ?case by simp
next
  case (Cons l ls)
  have "files (write_text p l w) p \<noteq> None"
    by (simp add: write_text_def)
  then have "foldl (\<lambda>v line. write_text p line v) (write_text p l w) ls =
      (write_text p l w)\<lparr>files := (files (write_text p l w))
         (p \<mapsto> the (files (write_text p l w) p) @ concat ls)\<rparr>"
    by (rule Cons.IH)
  also have "\<dots> = w\<lparr>files := (files w)(p \<mapsto> the (files w p) @ concat (l # ls))\<rparr>"
    using Cons.prems by (auto simp: write_text_def)
  finally show ?case by (simp only: foldl_Cons)
qed

lemma run_paf2liftover_not_found:
  assumes "ext (paf2liftover_command paf_file chain_file) (files w) = NotFound"
  shows "run_paf2liftover ext paf_file chain_file w =
     (Inr (), w\<lparr>printed := printed w @ [Msg_running_paf2liftover paf_file, Msg_paf2liftover_not_found],
               invocations := invocations w @ [paf2liftover_command paf_file chain_file]\<rparr>)"
  using assms
  by (simp add: run_paf2liftover_def run_paf2liftover_try_def subprocess_run_def py_print_def Let_def)

lemma run_paf2liftover_failed:
  assumes "ext (paf2liftover_command paf_file chain_file) (files w) = Exited rc out err fs"
    and "rc \<noteq> 0"
  shows "run_paf2liftover ext paf_file chain_file w =
     (Inr (), w\<lparr>files := fs,
               printed := printed w @ [Msg_running_paf2liftover paf_file,
                  Msg_error_paf2liftover
                    (CalledProcessError (paf2liftover_command paf_file chain_file) rc out err),
                  Msg_stdout out, Msg_stderr err],
               invocations := invocations w @ [paf2liftover_command paf_file chain_file]\<rparr>)"
  using assms
  by (simp add: run_paf2liftover_def run_paf2liftover_try_def subprocess_run_def py_print_def Let_def)

lemma run_paf2liftover_success:
  assumes "ext (paf2liftover_command paf_file chain_file) (files w) = Exited 0 out err fs"
    and "fs (chain_file @ ''.tmp'') = Some raw"
    and "dirs w chain_file = None"
  shows "run_paf2liftover ext paf_file chain_file w =
     (Inr (), w\<lparr>files := fs(chain_file \<mapsto> filter_chain raw, chain_file @ ''.tmp'' := None),
               printed := printed w @ [Msg_running_paf2liftover paf_file,
                  Msg_filtered_chain chain_file],
               invocations := invocations w @ [paf2liftover_command paf_file chain_file]\<rparr>)"
  using assms
  by (simp add: run_paf2liftover_def run_paf2liftover_try_def subprocess_run_def py_print_def
      Let_def read_file_def open_write_def os_remove_def write_lines_result filter_chain_def)


lemma run_paf2liftover_tmp_removed:
  "Msg_filtered_chain chain_file
     \<in> set (drop (length (printed w)) (printed (snd (run_paf2liftover ext paf_file chain_file w))))
   \<Longrightarrow> files (snd (run_paf2liftover ext paf_file chain_file w)) (chain_file @ ''.tmp'') = None"
  by (auto simp: run_paf2liftover_def run_paf2liftover_try_def subprocess_run_def py_print_def
      Let_def read_file_def open_write_def os_remove_def write_lines_result
      split: run_result.splits option.splits if_splits)

text \<open>
  C9: a call of \<open>run_paf2liftover\<close> that prints its success message leaves no temporary
  file; and when the converter exits with 0, the temporary file exists and the chain
  path is not a directory, the call returns without an exception, the temporary file
  is gone, the chain file holds the filtered text and the success message is printed.
\<close>

theorem temporary_file_removed_on_success:
  "(Msg_filtered_chain chain_file
      \<in> set (drop (length (printed w))
                (printed (snd (run_paf2liftover ext paf_file chain_file w))))
    \<longrightarrow> files (snd (run_paf2liftover ext paf_file chain_file w)) (chain_file @ ''.tmp'') = None)
   \<and> (ext (paf2liftover_command paf_file chain_file) (files w) = Exited 0 out err fs
        \<and> fs (chain_file @ ''.tmp'') = Some raw \<and> dirs w chain_file = None
      \<longrightarrow> fst (run_paf2liftover ext paf_file chain_file w) = Inr ()
        \<and> files (snd (run_paf2liftover ext paf_file chain_file w)) (chain_file @ ''.tmp'') = None
        \<and> files (snd (run_paf2liftover ext paf_file chain_file w)) chain_file
             = Some (filter_chain raw)
        \<and> printed (snd (run_paf2liftover ext paf_file chain_file w))
             = printed w @ [Msg_running_paf2liftover paf_file, Msg_filtered_chain chain_file])"
  using run_paf2liftover_success [of ext paf_file chain_file w out err fs raw]
    run_paf2liftover_tmp_removed [of chain_file w ext paf_file]
  by simp

theorem temporary_file_removed_on_success_witness:
  "working_tools (paf2liftover_command ''pafs/x.paf'' ''beds/x_to_hg38.chain'') (files paf_world)
     = Exited 0 [] [] ((files paf_world)(''beds/x_to_hg38.chain.tmp'' \<mapsto> sample_tmp))
   \<and> dirs paf_world ''beds/x_to_hg38.chain'' = None
   \<and> fst (run_paf2liftover working_tools ''pafs/x.paf'' ''beds/x_to_hg38.chain'' paf_world) = Inr ()
   \<and> files (snd (run_paf2liftover working_tools ''pafs/x.paf'' ''beds/x_to_hg38.chain'' paf_world))
        ''beds/x_to_hg38.chain.tmp'' = None
   \<and> files (snd (run_paf2liftover working_tools ''pafs/x.paf'' ''beds/x_to_hg38.chain'' paf_world))
        ''beds/x_to_hg38.chain'' = Some record13"
proof -
  have e: "working_tools (paf2liftover_command ''pafs/x.paf'' ''beds/x_to_hg38.chain'') (files paf_world)
     = Exited 0 [] [] ((files paf_world)(''beds/x_to_hg38.chain.tmp'' \<mapsto> sample_tmp))"
    by (simp add: working_tools_def paf2liftover_command_def)
  have d: "dirs paf_world ''beds/x_to_hg38.chain'' = None"
    by (simp add: paf_world_def)
  have f: "filter_chain sample_tmp = record13"
    by (simp add: filter_chain_def written_lines_def keep_line_def startswith_def strip_def
        isspace_def sample_tmp_def record13_def record12_def tabs_only_line_def TAB_def LF_def
        CR_def eval_nat_numeral)
  show ?thesis
    using temporary_file_removed_on_success [of "''beds/x_to_hg38.chain''" paf_world working_tools
        "''pafs/x.paf''" "[]" "[]" "(files paf_world)(''beds/x_to_hg38.chain.tmp'' \<mapsto> sample_tmp)"
        sample_tmp] e d f
    by simp
qed

text \<open>
  C6: after a liftover command that exits with 0, \<open>run_liftover\<close> prints that unmapped
  intervals were saved exactly when the unmapped path exists with a size above zero (for
  a regular file: its content is not empty), and prints that none were unmapped when
  the path is absent or its size is zero.
\<close>

theorem run_liftover_reports_unmapped:
  assumes "ext (liftover_command bed_file chain_file output_bed unmapped_bed) (files w)
             = Exited 0 out err fs"
  shows "run_liftover ext bed_file chain_file output_bed unmapped_bed w =
     (Inr (),
      w\<lparr>files := fs,
        printed := printed w @
          [Msg_running_liftover chain_file, Msg_lifted_over output_bed,
           if (case fs unmapped_bed of
                 Some content \<Rightarrow> length content > 0
               | None \<Rightarrow> dirs w unmapped_bed \<noteq> None \<and> dir_size w unmapped_bed > 0)
           then Msg_unmapped_saved unmapped_bed else Msg_no_unmapped],
        invocations := invocations w
          @ [liftover_command bed_file chain_file output_bed unmapped_bed]\<rparr>)"
  using assms
  by (auto simp: run_liftover_def run_liftover_try_def subprocess_run_def py_print_def Let_def
      os_path_exists_def os_stat_size_def split: option.splits)

theorem run_liftover_reports_unmapped_witness:
  "working_tools (liftover_command ''hg38.bed'' ''beds/x.chain'' ''beds/x.bed'' ''unmapped/x.bed'')
       (files paf_world)
     = Exited 0 [] [] ((files paf_world)(''beds/x.bed'' \<mapsto> ''lifted'', ''unmapped/x.bed'' \<mapsto> []))
   \<and> printed (snd (run_liftover working_tools ''hg38.bed'' ''beds/x.chain'' ''beds/x.bed''
         ''unmapped/x.bed'' paf_world))
     = [Msg_running_liftover ''beds/x.chain'', Msg_lifted_over ''beds/x.bed'', Msg_no_unmapped]"
proof -
  have e: "working_tools (liftover_command ''hg38.bed'' ''beds/x.chain'' ''beds/x.bed'' ''unmapped/x.bed'')
       (files paf_world)
     = Exited 0 [] [] ((files paf_world)(''beds/x.bed'' \<mapsto> ''lifted'', ''unmapped/x.bed'' \<mapsto> []))"
    by (simp add: working_tools_def liftover_command_def)
  show ?thesis
    using run_liftover_reports_unmapped [of working_tools "''hg38.bed''" "''beds/x.chain''"
        "''beds/x.bed''" "''unmapped/x.bed''" paf_world "[]" "[]"
        "(files paf_world)(''beds/x.bed'' \<mapsto> ''lifted'', ''unmapped/x.bed'' \<mapsto> [])"] e
    by (simp add: paf_world_def)
qed

text \<open>
  C7: when the converter binary is missing, or the converter exits with a code other than
  0, \<open>run_paf2liftover\<close> prints the error (for a non-zero exit with the captured
  standard output and standard error), writes no file itself and returns; the files are
  as the converter left them. When the chain file is then absent, the loop body of
  \<open>process_paf_directory\<close> prints that no chain file was generated and starts no
  liftover: the converter command is the only command of that file.
\<close>

theorem converter_failure_skips_liftover:
  assumes "paf_file = path_join paf_dir filename"
    and "chain_file = path_join output_bed_dir (assembly_name_of filename @ ''_to_hg38.chain'')"
    and "command = paf2liftover_command paf_file chain_file"
  shows "(ext command (files w) = NotFound \<longrightarrow>
            run_paf2liftover ext paf_file chain_file w =
              (Inr (), w\<lparr>printed := printed w @ [Msg_running_paf2liftover paf_file,
                                                    Msg_paf2liftover_not_found],
                        invocations := invocations w @ [command]\<rparr>))
       \<and> (ext command (files w) = Exited rc out err fs \<and> rc \<noteq> 0 \<longrightarrow>
            run_paf2liftover ext paf_file chain_file w =
              (Inr (), w\<lparr>files := fs,
                        printed := printed w @ [Msg_running_paf2liftover paf_file,
                           Msg_error_paf2liftover (CalledProcessError command rc out err),
                           Msg_stdout out, Msg_stderr err],
                        invocations := invocations w @ [command]\<rparr>))
       \<and> (ext command (files w) = NotFound \<and> files w chain_file = None
            \<and> dirs w chain_file = None \<longrightarrow>
            process_paf_file ext paf_dir output_bed_dir unmapped_bed_dir hg38_bed_file filename w =
              (Inr (), w\<lparr>printed := printed w @ [Msg_running_paf2liftover paf_file,
                           Msg_paf2liftover_not_found,
                           Msg_chain_not_generated (assembly_name_of filename)],
                        invocations := invocations w @ [command]\<rparr>))
       \<and> (ext command (files w) = Exited rc out err fs \<and> rc \<noteq> 0 \<and> fs chain_file = None
            \<and> dirs w chain_file = None \<longrightarrow>
            process_paf_file ext paf_dir output_bed_dir unmapped_bed_dir hg38_bed_file filename w =
              (Inr (), w\<lparr>files := fs,
                        printed := printed w @ [Msg_running_paf2liftover paf_file,
                           Msg_error_paf2liftover (CalledProcessError command rc out err),
                           Msg_stdout out, Msg_stderr err,
                           Msg_chain_not_generated (assembly_name_of filename)],
                        invocations := invocations w @ [command]\<rparr>))"
proof -
  have nf: "run_paf2liftover ext paf_file chain_file w =
      (Inr (), w\<lparr>printed := printed w @ [Msg_running_paf2liftover paf_file,
         Msg_paf2liftover_not_found], invocations := invocations w @ [command]\<rparr>)"
    if "ext command (files w) = NotFound"
    using that run_paf2liftover_not_found [of ext paf_file chain_file w] assms(3) by simp
  have fl: "run_paf2liftover ext paf_file chain_file w =
      (Inr (), w\<lparr>files := fs,
         printed := printed w @ [Msg_running_paf2liftover paf_file,
           Msg_error_paf2liftover (CalledProcessError command rc out err),
           Msg_stdout out, Msg_stderr err],
         invocations := invocations w @ [command]\<rparr>)"
    if "ext command (files w) = Exited rc out err fs" and "rc \<noteq> 0"
    using that run_paf2liftover_failed [of ext paf_file chain_file w rc out err fs] assms(3)
    by simp
  have body: "process_paf_file ext paf_dir output_bed_dir unmapped_bed_dir hg38_bed_file filename w
      = (Inr (), py_print (Msg_chain_not_generated (assembly_name_of filename)) w1)"
    if "run_paf2liftover ext paf_file chain_file w = (Inr (), w1)"
      and "\<not> os_path_exists w1 chain_file" for w1
    using that assms(1,2) by (simp add: process_paf_file_def Let_def)
  show ?thesis
  proof (intro conjI impI)
    assume "ext command (files w) = NotFound"
    then show "run_paf2liftover ext paf_file chain_file w =
      (Inr (), w\<lparr>printed := printed w @ [Msg_running_paf2liftover paf_file,
         Msg_paf2liftover_not_found], invocations := invocations w @ [command]\<rparr>)"
      by (rule nf)
  next
    assume "ext command (files w) = Exited rc out err fs \<and> rc \<noteq> 0"
    then show "run_paf2liftover ext paf_file chain_file w =
      (Inr (), w\<lparr>files := fs,
         printed := printed w @ [Msg_running_paf2liftover paf_file,
           Msg_error_paf2liftover (CalledProcessError command rc out err),
           Msg_stdout out, Msg_stderr err],
         invocations := invocations w @ [command]\<rparr>)"
      using fl by blast
  next
    assume a: "ext command (files w) = NotFound \<and> files w chain_file = None
        \<and> dirs w chain_file = None"
    then show "process_paf_file ext paf_dir output_bed_dir unmapped_bed_dir hg38_bed_file
        filename w =
      (Inr (), w\<lparr>printed := printed w @ [Msg_running_paf2liftover paf_file,
         Msg_paf2liftover_not_found, Msg_chain_not_generated (assembly_name_of filename)],
         invocations := invocations w @ [command]\<rparr>)"
      using body [OF nf] by (simp add: os_path_exists_def py_print_def)
  next
    assume a: "ext command (files w) = Exited rc out err fs \<and> rc \<noteq> 0 \<and> fs chain_file = None
        \<and> dirs w chain_file = None"
    then show "process_paf_file ext paf_dir output_bed_dir unmapped_bed_dir hg38_bed_file
        filename w =
      (Inr (), w\<lparr>files := fs,
         printed := printed w @ [Msg_running_paf2liftover paf_file,
           Msg_error_paf2liftover (CalledProcessError command rc out err),
           Msg_stdout out, Msg_stderr err,
           Msg_chain_not_generated (assembly_name_of filename)],
         invocations := invocations w @ [command]\<rparr>)"
      using body [OF fl] by (simp add: os_path_exists_def py_print_def)
  qed
qed

theorem converter_failure_skips_liftover_witness:
  "broken_converter (paf2liftover_command ''pafs/x.paf'' ''beds/x_to_hg38.chain'') (files paf_world)
     = Exited 1 ''partial'' ''bad record'' (files paf_world)
   \<and> no_tools (paf2liftover_command ''pafs/x.paf'' ''beds/x_to_hg38.chain'') (files paf_world)
     = NotFound
   \<and> files paf_world ''beds/x_to_hg38.chain'' = None
   \<and> dirs paf_world ''beds/x_to_hg38.chain'' = None
   \<and> process_paf_file broken_converter ''pafs'' ''beds'' ''unmapped'' ''hg38.bed'' ''x.paf'' paf_world
     = (Inr (), paf_world\<lparr>files := files paf_world,
          printed := [Msg_running_paf2liftover ''pafs/x.paf'',
            Msg_error_paf2liftover (CalledProcessError
               (paf2liftover_command ''pafs/x.paf'' ''beds/x_to_hg38.chain'') 1
               ''partial'' ''bad record''),
            Msg_stdout ''partial'', Msg_stderr ''bad record'', Msg_chain_not_generated ''x''],
          invocations := [paf2liftover_command ''pafs/x.paf'' ''beds/x_to_hg38.chain'']\<rparr>)
   \<and> process_paf_file no_tools ''pafs'' ''beds'' ''unmapped'' ''hg38.bed'' ''x.paf'' paf_world
     = (Inr (), paf_world\<lparr>
          printed := [Msg_running_paf2liftover ''pafs/x.paf'', Msg_paf2liftover_not_found,
            Msg_chain_not_generated ''x''],
          invocations := [paf2liftover_command ''pafs/x.paf'' ''beds/x_to_hg38.chain'']\<rparr>)"
proof -
  have p: "''pafs/x.paf'' = path_join ''pafs'' ''x.paf''"
    by (simp add: path_join_def startswith_def endswith_def suffix_def)
  have n: "assembly_name_of ''x.paf'' = ''x''"
    by (simp add: assembly_name_of_def str_replace.simps)
  have c: "''beds/x_to_hg38.chain'' = path_join ''beds'' (assembly_name_of ''x.paf'' @ ''_to_hg38.chain'')"
    by (simp add: n path_join_def startswith_def endswith_def suffix_def)
  have e1: "broken_converter (paf2liftover_command ''pafs/x.paf'' ''beds/x_to_hg38.chain'') (files paf_world)
     = Exited 1 ''partial'' ''bad record'' (files paf_world)"
    by (simp add: broken_converter_def paf2liftover_command_def)
  have e2: "no_tools (paf2liftover_command ''pafs/x.paf'' ''beds/x_to_hg38.chain'') (files paf_world)
     = NotFound"
    by (simp add: no_tools_def)
  have f: "files paf_world ''beds/x_to_hg38.chain'' = None"
    and d: "dirs paf_world ''beds/x_to_hg38.chain'' = None"
    and z: "printed paf_world = []" "invocations paf_world = []"
    by (simp_all add: paf_world_def)
  show ?thesis
    using converter_failure_skips_liftover [OF p c refl, of broken_converter paf_world 1
        "''partial''" "''bad record''" "files paf_world" "''unmapped''" "''hg38.bed''"]
      converter_failure_skips_liftover [OF p c refl, of no_tools paf_world 1
        "''partial''" "''bad record''" "files paf_world" "''unmapped''" "''hg38.bed''"]
      e1 e2 f d z n
    by simp
qed

section \<open>Program 2: the assembly name\<close>

lemma run_paf2liftover_invocations:
  "invocations (snd (run_paf2liftover ext paf_file chain_file w)) =
     invocations w @ [paf2liftover_command paf_file chain_file]"
  by (auto simp: run_paf2liftover_def run_paf2liftover_try_def subprocess_run_def py_print_def
      Let_def read_file_def open_write_def os_remove_def write_lines_result
      split: run_result.splits option.splits if_splits)

lemma run_liftover_invocations:
  "invocations (snd (run_liftover ext bed_file chain_file output_bed unmapped_bed w)) =
     invocations w @ [liftover_command bed_file chain_file output_bed unmapped_bed]"
  by (auto simp: run_liftover_def run_liftover_try_def subprocess_run_def py_print_def
      Let_def os_path_exists_def os_stat_size_def
      split: run_result.splits option.splits if_splits)

lemma process_paf_file_invocations:
  "invocations (snd (process_paf_file ext paf_dir output_bed_dir unmapped_bed_dir hg38_bed_file
       filename w))
   \<in> {invocations w @
        [paf2liftover_command (path_join paf_dir filename)
           (path_join output_bed_dir (assembly_name_of filename @ ''_to_hg38.chain''))],
      invocations w @
        [paf2liftover_command (path_join paf_dir filename)
           (path_join output_bed_dir (assembly_name_of filename @ ''_to_hg38.chain'')),
         liftover_command hg38_bed_file
           (path_join output_bed_dir (assembly_name_of filename @ ''_to_hg38.chain''))
           (path_join output_bed_dir (assembly_name_of filename @ ''_imprinted_loci.bed''))
           (path_join unmapped_bed_dir (assembly_name_of filename @ ''_unmapped.bed''))]}"
proof -
  let ?paf = "path_join paf_dir filename"
  let ?chain = "path_join output_bed_dir (assembly_name_of filename @ ''_to_hg38.chain'')"
  let ?lift = "path_join output_bed_dir (assembly_name_of filename @ ''_imprinted_loci.bed'')"
  let ?unm = "path_join unmapped_bed_dir (assembly_name_of filename @ ''_unmapped.bed'')"
  obtain r w1 where c: "run_paf2liftover ext ?paf ?chain w = (r, w1)"
    by (cases "run_paf2liftover ext ?paf ?chain w") auto
  have i1: "invocations w1 = invocations w @ [paf2liftover_command ?paf ?chain]"
    using run_paf2liftover_invocations [of ext ?paf ?chain w] c by simp
  show ?thesis
  proof (cases r)
    case (Inl e)
    then show ?thesis using c i1 by (simp add: process_paf_file_def Let_def)
  next
    case (Inr u)
    show ?thesis
    proof (cases "os_path_exists w1 ?chain")
      case True
      then show ?thesis
        using c Inr i1 run_liftover_invocations [of ext hg38_bed_file ?chain ?lift ?unm w1]
        by (simp add: process_paf_file_def Let_def)
    next
      case False
      then show ?thesis
        using c Inr i1 by (simp add: process_paf_file_def Let_def py_print_def)
    qed
  qed
qed

text \<open>
  C10: the assembly name that \<open>process_paf_directory\<close> derives from a file name is the
  name with every occurrence of \<open>.paf\<close> removed, found from the left, not only the
  extension at the end: \<open>a.paf.paf\<close> gives \<open>a\<close> and \<open>x.paf_y.paf\<close> gives \<open>x_y\<close>; a
  first occurrence is dropped and the rest of the name treated the same way; a name
  without \<open>.paf\<close> is kept. The chain, mapped and unmapped paths of the commands are
  built from this name.
\<close>

theorem assembly_name_drops_every_paf:
  "assembly_name_of ''a.paf.paf'' = ''a''
   \<and> assembly_name_of ''x.paf_y.paf'' = ''x_y''
   \<and> (\<not> sublist ''.paf'' a \<longrightarrow> assembly_name_of (a @ ''.paf'' @ b) = a @ assembly_name_of b)
   \<and> (\<not> sublist ''.paf'' s \<longrightarrow> assembly_name_of s = s)
   \<and> invocations (snd (process_paf_file ext paf_dir output_bed_dir unmapped_bed_dir
        hg38_bed_file filename w))
     \<in> {invocations w @
          [paf2liftover_command (path_join paf_dir filename)
             (path_join output_bed_dir (assembly_name_of filename @ ''_to_hg38.chain''))],
        invocations w @
          [paf2liftover_command (path_join paf_dir filename)
             (path_join output_bed_dir (assembly_name_of filename @ ''_to_hg38.chain'')),
           liftover_command hg38_bed_file
             (path_join output_bed_dir (assembly_name_of filename @ ''_to_hg38.chain''))
             (path_join output_bed_dir (assembly_name_of filename @ ''_imprinted_loci.bed''))
             (path_join unmapped_bed_dir (assembly_name_of filename @ ''_unmapped.bed''))]}"
proof -
  have 1: "assembly_name_of ''a.paf.paf'' = ''a''"
    by (simp add: assembly_name_of_def str_replace.simps)
  have 2: "assembly_name_of ''x.paf_y.paf'' = ''x_y''"
    by (simp add: assembly_name_of_def str_replace.simps)
  have 3: "\<not> sublist ''.paf'' a \<longrightarrow> assembly_name_of (a @ ''.paf'' @ b) = a @ assembly_name_of b"
    using str_replace_paf_first [of a "[]" b] by (simp add: assembly_name_of_def)
  have 4: "\<not> sublist ''.paf'' s \<longrightarrow> assembly_name_of s = s"
    using str_replace_absent [of "''.paf''" s "[]"] by (simp add: assembly_name_of_def)
  show ?thesis
    using 1 2 3 4 process_paf_file_invocations [of ext paf_dir output_bed_dir unmapped_bed_dir
        hg38_bed_file filename w]
    by blast
qed

theorem assembly_name_drops_every_paf_witness:
  "\<not> sublist ''.paf'' ''x'' \<and> \<not> sublist ''.paf'' ''x_y''
   \<and> assembly_name_of ''x.paf_y.paf'' = ''x_y''
   \<and> invocations (snd (process_paf_file no_tools ''pafs'' ''beds'' ''unmapped'' ''hg38.bed''
        ''x.paf_y.paf'' paf_world))
     = [paf2liftover_command ''pafs/x.paf_y.paf'' ''beds/x_y_to_hg38.chain'']"
proof -
  have a: "\<not> sublist ''.paf'' ''x''" and b: "\<not> sublist ''.paf'' ''x_y''"
    by (simp_all add: sublist_Cons_right)
  have n: "assembly_name_of ''x_y'' = ''x_y''"
    using assembly_name_drops_every_paf [of "''x''" "''_y.paf''" "''x_y''"] b by simp
  have m: "assembly_name_of ''_y.paf'' = ''_y''"
    using assembly_name_drops_every_paf [of "''_y''" "[]" "[]"]
    by (simp add: sublist_Cons_right)
  have k: "assembly_name_of ''x.paf_y.paf'' = ''x_y''"
    using assembly_name_drops_every_paf [of "''x''" "''_y.paf''" "''x_y''"] a m by simp
  have i: "invocations (snd (process_paf_file no_tools ''pafs'' ''beds'' ''unmapped'' ''hg38.bed''
        ''x.paf_y.paf'' paf_world))
     = [paf2liftover_command ''pafs/x.paf_y.paf'' ''beds/x_y_to_hg38.chain'']"
    by (simp add: process_paf_file_def k Let_def path_join_def startswith_def endswith_def
        suffix_def run_paf2liftover_not_found no_tools_def os_path_exists_def paf_world_def
        py_print_def)
  show ?thesis using a b k i by simp
qed

section \<open>Program 2: the interval list\<close>
















section \<open>Program 2: a directory of alignment files that does not exist\<close>

text \<open>
  C5 fails on the code. Program 2, started on a directory of alignment files that does
  not exist (with a good loci table), ends with the \<open>FileNotFoundError\<close> that
  \<open>os.listdir\<close> raises in \<open>process_paf_directory\<close>: nothing catches it, and the interval
  file written before stays in the working directory. Program 1 tests its input
  directory first: on a missing one it prints a message and returns.
\<close>

theorem missing_paf_dir_raises:
  "dirs loci_world ''missing_pafs'' = None \<and> files loci_world ''missing_pafs'' = None
   \<and> fst (main_liftover no_tools sample_read_csv ''/work'' ''missing_pafs'' ''beds'' ''unmapped''
            ''loci.tsv'' loci_world) = Inl FileNotFoundError
   \<and> files (snd (main_liftover no_tools sample_read_csv ''/work'' ''missing_pafs'' ''beds''
            ''unmapped'' ''loci.tsv'' loci_world)) ''/work/hg38_imprinted_loci.bed'' \<noteq> None
   \<and> main_alignment no_tools ''hg38.fa'' ''missing_fastas'' ''pafs'' loci_world
       = (Inr (), loci_world\<lparr>printed := [Msg_input_dir_missing ''missing_fastas'']\<rparr>)"
proof -
  have main: "fst (main_liftover no_tools sample_read_csv ''/work'' ''missing_pafs'' ''beds''
            ''unmapped'' ''loci.tsv'' loci_world) = Inl FileNotFoundError
   \<and> files (snd (main_liftover no_tools sample_read_csv ''/work'' ''missing_pafs'' ''beds''
            ''unmapped'' ''loci.tsv'' loci_world)) ''/work/hg38_imprinted_loci.bed'' \<noteq> None"
    by (simp add: main_liftover_def os_makedirs.simps makedirs_split_def path_split_def rfind_def
        rstrip_slash_def mkdir_exist_ok_def os_mkdir_def os_path_exists_def os_path_isdir_def
        add_entry_def create_hg38_bed_def create_hg38_bed_try_def
        read_file_def select_columns_def to_csv_write_def parent_is_dir_def py_print_def
        process_paf_directory_def os_listdir_def loci_world_def sample_read_csv_def
        sample_loci_def path_join_def startswith_def endswith_def suffix_def Let_def)
  have al: "main_alignment no_tools ''hg38.fa'' ''missing_fastas'' ''pafs'' loci_world
       = (Inr (), loci_world\<lparr>printed := [Msg_input_dir_missing ''missing_fastas'']\<rparr>)"
    by (simp add: main_alignment_def process_directories_def os_path_isdir_def py_print_def
        loci_world_def)
  show ?thesis using main al by (simp add: loci_world_def)
qed

end
